theory Spec2Isabelle
  imports Main
begin

section \<open>JavaScript values, errors and promise outcomes\<close>

text \<open>
  The orchestrator class \<open>OpenLogin\<close> (packages/openlogin/src/OpenLogin.ts) keeps its
  session data in a plain JavaScript object. TypeScript types are erased at run time, so
  an object is a finite map from property names to values; a value is a string or a
  nested object. An absent property reads as \<open>undefined\<close>, which is \<open>None\<close> here.
  String lengths count the characters of the Isabelle string; key material is ASCII hex.
\<close>

datatype jsval = JStr string | JObj "string \<Rightarrow> jsval option"

type_synonym jsobj = "string \<Rightarrow> jsval option"

text \<open>JavaScript truthiness of a property read: \<open>undefined\<close> and \<open>""\<close> are falsy,
  a non-empty string and every object are truthy.\<close>

fun truthy :: "jsval option \<Rightarrow> bool" where
  "truthy None = False"
| "truthy (Some (JStr s)) = (s \<noteq> [])"
| "truthy (Some (JObj obj)) = True"

fun truthy_str :: "string option \<Rightarrow> bool" where
  "truthy_str None = False"
| "truthy_str (Some s) = (s \<noteq> [])"

text \<open>A template literal prints an undefined value as the word \<open>undefined\<close>.\<close>

fun template :: "string option \<Rightarrow> string" where
  "template None = ''undefined''"
| "template (Some s) = s"

text \<open>An object literal property \<open>{ k: v }\<close> whose value may be undefined; an
  undefined value is kept as an absent property.\<close>

fun property :: "string \<Rightarrow> jsval option \<Rightarrow> jsobj" where
  "property k None = Map.empty"
| "property k (Some v) = [k \<mapsto> v]"

text \<open>The object spread \<open>{ ...a, ...b }\<close>: the properties of \<open>b\<close> win.\<close>

definition spread :: "('k \<Rightarrow> 'v option) \<Rightarrow> ('k \<Rightarrow> 'v option) \<Rightarrow> ('k \<Rightarrow> 'v option)" where
  "spread a b = a ++ b"

text \<open>\<open>String.prototype.padStart(targetLength, padString)\<close>: the pad string is repeated
  and cut to fill the missing width; a string that is already long enough is returned
  as it is.\<close>

definition padStart :: "nat \<Rightarrow> string \<Rightarrow> string \<Rightarrow> string" where
  "padStart targetLength padString s =
     take (targetLength - length s) (concat (replicate (targetLength - length s) padString)) @ s"

datatype error = Error string | TypeError string

text \<open>What the caller of an asynchronous method observes: the promise resolves with a
  value, rejects with an error (a \<open>throw\<close> inside an \<open>async\<close> method), or never
  settles.\<close>

datatype 'a outcome = Resolved 'a | Rejected error | Pending

section \<open>Configuration\<close>

text \<open>
  Modelled from the spec: the constant tables \<open>OPENLOGIN_NETWORK\<close> and \<open>UX_MODE\<close> live in
  the package openlogin-utils, which is not part of the sources at hand. The network
  identifiers are the seven named networks of the specification, the UX modes are
  \<open>redirect\<close> and \<open>popup\<close>.
\<close>

abbreviation MAINNET :: string where "MAINNET \<equiv> ''mainnet''"
abbreviation CYAN :: string where "CYAN \<equiv> ''cyan''"
abbreviation TESTNET :: string where "TESTNET \<equiv> ''testnet''"
abbreviation SK_TESTNET :: string where "SK_TESTNET \<equiv> ''sk_testnet''"
abbreviation CELESTE :: string where "CELESTE \<equiv> ''celeste''"
abbreviation AQUA :: string where "AQUA \<equiv> ''aqua''"
abbreviation DEVELOPMENT :: string where "DEVELOPMENT \<equiv> ''development''"

abbreviation REDIRECT :: string where "REDIRECT \<equiv> ''redirect''"
abbreviation POPUP :: string where "POPUP \<equiv> ''popup''"

text \<open>\<open>OpenLoginOptions\<close>, with the fields the class reads or writes. Every field is
  optional in the caller's object.\<close>

record options =
  sdkUrl :: "string option"
  network :: "string option"
  redirectUrl :: "string option"
  uxMode :: "string option"
  replaceUrlOnRedirect :: "bool option"
  originData :: "(string \<Rightarrow> string option) option"
  whiteLabel :: "jsobj option"
  loginConfig :: "jsobj option"
  storageServerUrl :: "string option"
  storageKey :: "string option"
  webauthnTransports :: "string list option"
  sessionTime :: "int option"
  sessionNamespace :: "string option"

section \<open>Collaborators\<close>

text \<open>The session store client \<open>OpenloginSessionManager\<close>: the constructor arguments
  the class passes, and the mutable \<open>sessionKey\<close> property.\<close>

record session_manager =
  sessionServerBaseUrl :: "string option"
  managerNamespace :: "string option"
  managerSessionTime :: "int option"
  sessionKey :: "string option"

text \<open>
  Modelled from the spec: utils.ts (\<open>constructURL\<close>, \<open>getHashQueryParams\<close>) is not part of
  the sources at hand. A built URL is kept structured, as a base and the parameters of
  its hash fragment.
\<close>

datatype url = URL (baseURL: string) (hash: "(string \<times> string) list")

definition constructURL :: "string \<Rightarrow> (string \<times> string) list \<Rightarrow> url" where
  "constructURL base hashParams = URL base hashParams"

record location =
  protocol :: string
  host :: string
  pathname :: string
  origin :: string

text \<open>The payload \<open>{ options, params }\<close> stored under a login-request key.\<close>

record login_payload =
  payload_options :: options
  payload_params :: jsobj

text \<open>A storage instance is named by the storage key and the backend
  (\<open>BrowserStorage.getInstance(storageKey, options.storageKey)\<close>).\<close>

type_synonym storage_id = "string \<times> string option"

text \<open>The calls that leave the orchestrator, in the order they are made.\<close>

datatype event =
    ConsoleLog string
  | LogError string error
  | ReplaceUrl
  | AuthorizeSession session_manager
  | InvalidateSession session_manager
  | CreateSession session_manager login_payload
  | Navigate url
  | ListenOnChannel string
  | PopupOpen url

text \<open>
  Modelled from the spec: PopupHandler.ts is not part of the sources at hand. Per login
  call the popup either is closed before completion, delivers one session key on the
  channel, fails on the channel, or stays silent (the orchestrator enforces no timeout).
\<close>

datatype popup_event = PopupClosed | ChannelMessage string | ChannelError error | NoEvent

text \<open>
  The behaviour of the collaborators is a parameter of every operation.
  Modelled from the spec: the session store client is an external package; it answers
  \<open>authorizeSession\<close> with session data or a failure, \<open>invalidateSession\<close> and
  \<open>createSession\<close> with success (\<open>None\<close>) or a failure, and mints a random key.
\<close>

record env =
  window_location :: location
  generateRandomSessionKey :: string
  createSession_result :: "session_manager \<Rightarrow> error option"
  authorizeSession_result :: "session_manager \<Rightarrow> error + jsobj"
  invalidateSession_result :: "session_manager \<Rightarrow> error option"
  popup_result :: "url \<Rightarrow> string \<Rightarrow> popup_event"

text \<open>What the orchestrator can change outside itself: persistent storage, the hash
  parameters of the visible page URL, and the log of outgoing calls.\<close>

record world =
  storage :: "storage_id \<Rightarrow> string \<Rightarrow> string option"
  pageHash :: "string \<Rightarrow> string option"
  effects :: "event list"

definition emit :: "event \<Rightarrow> world \<Rightarrow> world" where
  "emit ev w = w\<lparr>effects := effects w @ [ev]\<rparr>"

definition storage_get :: "storage_id \<Rightarrow> string \<Rightarrow> world \<Rightarrow> string option" where
  "storage_get sid name w = storage w sid name"

definition storage_set :: "storage_id \<Rightarrow> string \<Rightarrow> string \<Rightarrow> world \<Rightarrow> world" where
  "storage_set sid name v w = w\<lparr>storage := (storage w)(sid := (storage w sid)(name \<mapsto> v))\<rparr>"

text \<open>Modelled from the spec: \<open>getHashQueryParams(replaceUrl)\<close> returns the parameters of
  the page's hash fragment and, when asked to, rewrites the visible URL without them.\<close>

definition getHashQueryParams :: "bool \<Rightarrow> world \<Rightarrow> (string \<Rightarrow> string option) \<times> world" where
  "getHashQueryParams replaceUrl w =
     (pageHash w, if replaceUrl then emit ReplaceUrl (w\<lparr>pageHash := Map.empty\<rparr>) else w)"

section \<open>The orchestrator\<close>

record openlogin =
  state :: jsobj
  sessionManager :: "session_manager option"
  currentStorage :: "storage_id option"
  options :: options

abbreviation storageBaseKey :: string where "storageBaseKey \<equiv> ''openlogin_store''"

subsection \<open>Construction\<close>

definition derive_sdkUrl :: "options \<Rightarrow> options" where
  "derive_sdkUrl opts =
     (if \<not> truthy_str (sdkUrl opts) then
        (if network opts = Some MAINNET then opts\<lparr>sdkUrl := Some ''https://app.openlogin.com''\<rparr>
         else if network opts = Some CYAN then opts\<lparr>sdkUrl := Some ''https://cyan.openlogin.com''\<rparr>
         else if network opts = Some TESTNET then opts\<lparr>sdkUrl := Some ''https://beta.openlogin.com''\<rparr>
         else if network opts = Some SK_TESTNET then opts\<lparr>sdkUrl := Some ''https://beta-sk.openlogin.com''\<rparr>
         else if network opts = Some CELESTE then opts\<lparr>sdkUrl := Some ''https://celeste.openlogin.com''\<rparr>
         else if network opts = Some AQUA then opts\<lparr>sdkUrl := Some ''https://aqua.openlogin.com''\<rparr>
         else if network opts = Some DEVELOPMENT then opts\<lparr>sdkUrl := Some ''http://localhost:3000''\<rparr>
         else opts)
      else opts)"

definition fill_defaults :: "location \<Rightarrow> options \<Rightarrow> options" where
  "fill_defaults loc opts =
     opts\<lparr>
       redirectUrl := (if \<not> truthy_str (redirectUrl opts)
                       then Some (protocol loc @ ''//'' @ host loc @ pathname loc)
                       else redirectUrl opts),
       uxMode := (if \<not> truthy_str (uxMode opts) then Some REDIRECT else uxMode opts),
       replaceUrlOnRedirect := (if replaceUrlOnRedirect opts = None \<or>
                                   replaceUrlOnRedirect opts = Some False
                                then Some True else replaceUrlOnRedirect opts),
       originData := (if originData opts = None then Some [origin loc \<mapsto> '''']
                      else originData opts),
       whiteLabel := (if whiteLabel opts = None then Some Map.empty else whiteLabel opts),
       loginConfig := (if loginConfig opts = None then Some Map.empty else loginConfig opts),
       storageServerUrl := (if \<not> truthy_str (storageServerUrl opts)
                            then Some ''https://broadcast-server.tor.us''
                            else storageServerUrl opts),
       storageKey := (if \<not> truthy_str (storageKey opts) then Some ''local'' else storageKey opts),
       webauthnTransports := (if webauthnTransports opts = None then Some [''internal'']
                              else webauthnTransports opts),
       sessionTime := (if sessionTime opts = None \<or> sessionTime opts = Some 0 then Some 86400
                       else sessionTime opts)\<rparr>"

definition OpenLogin_constructor :: "env \<Rightarrow> options \<Rightarrow> world \<Rightarrow> (error + openlogin) \<times> world" where
  "OpenLogin_constructor e opts w =
     (let opts1 = derive_sdkUrl opts in
      if \<not> truthy_str (sdkUrl opts1) then (Inl (Error ''unspecified network and sdkUrl''), w)
      else (Inr \<lparr>state = Map.empty, sessionManager = None, currentStorage = None,
                 options = fill_defaults (window_location e) opts1\<rparr>, w))"

subsection \<open>Accessors\<close>

text \<open>The method call \<open>v.padStart(64, "0")\<close> on a truthy property value: only a string
  has the method.\<close>

fun call_padStart :: "jsval option \<Rightarrow> error + string" where
  "call_padStart (Some (JStr s)) = Inr (padStart 64 ''0'' s)"
| "call_padStart v = Inl (TypeError ''padStart is not a function'')"

definition privKey :: "openlogin \<Rightarrow> error + string" where
  "privKey ol = (if truthy (state ol ''privKey'') then call_padStart (state ol ''privKey'')
                 else Inr '''')"

definition coreKitKey :: "openlogin \<Rightarrow> error + string" where
  "coreKitKey ol = (if truthy (state ol ''coreKitKey'') then call_padStart (state ol ''coreKitKey'')
                    else Inr '''')"

subsection \<open>State update and authorization\<close>

definition updateState :: "jsobj \<Rightarrow> openlogin \<Rightarrow> openlogin" where
  "updateState data ol = ol\<lparr>state := spread (state ol) data\<rparr>"

text \<open>\<open>_authorizeSession\<close>: everything thrown inside the \<open>try\<close> block, a failure of
  the store included, is logged and answered with the empty object.\<close>

definition private_authorizeSession :: "env \<Rightarrow> openlogin \<Rightarrow> world \<Rightarrow> jsobj \<times> world" where
  "private_authorizeSession e ol w =
     (case sessionManager ol of
        None \<Rightarrow> (Map.empty,
                 emit (LogError ''authorization failed'' (TypeError ''cannot read properties of undefined'')) w)
      | Some sm \<Rightarrow>
          if \<not> truthy_str (sessionKey sm) then (Map.empty, w)
          else (case authorizeSession_result e sm of
                  Inr result \<Rightarrow> (result, emit (AuthorizeSession sm) w)
                | Inl err \<Rightarrow> (Map.empty,
                     emit (LogError ''authorization failed'' err) (emit (AuthorizeSession sm) w))))"

subsection \<open>Initialization\<close>

definition init_storage_id :: "openlogin \<Rightarrow> storage_id" where
  "init_storage_id ol =
     (if truthy_str (sessionNamespace (options ol))
      then storageBaseKey @ ''_'' @ template (sessionNamespace (options ol))
      else storageBaseKey,
      storageKey (options ol))"

definition init :: "env \<Rightarrow> openlogin \<Rightarrow> world \<Rightarrow> unit outcome \<times> openlogin \<times> world" where
  "init e ol w =
     (let sid = init_storage_id ol;
          sessionId = storage_get sid ''sessionId'' w;
          sm = \<lparr>sessionServerBaseUrl = storageServerUrl (options ol),
                managerNamespace = sessionNamespace (options ol),
                managerSessionTime = sessionTime (options ol),
                sessionKey = sessionId\<rparr>;
          w1 = (if network (options ol) = Some TESTNET
                then emit (ConsoleLog ''%c WARNING! You are on testnet. Please set network: 'mainnet' in production'') w
                else w);
          (params, w2) = getHashQueryParams (replaceUrlOnRedirect (options ol) = Some True) w1;
          (sm1, w3) = (case params ''sessionId'' of
                         None \<Rightarrow> (sm, w2)
                       | Some v \<Rightarrow>
                           if v \<noteq> []
                           then (sm\<lparr>sessionKey := Some v\<rparr>, storage_set sid ''sessionId'' v w2)
                           else (sm, w2));
          ol1 = ol\<lparr>currentStorage := Some sid, sessionManager := Some sm1\<rparr>
      in if truthy_str (sessionKey sm1)
         then (let (data, w4) = private_authorizeSession e ol1 w3
               in (Resolved (), updateState data ol1, w4))
         else (Resolved (), ol1, w3))"

subsection \<open>Login\<close>

datatype login_result = LoginUndefined | LoginPrivKey string

definition getLoginId :: "env \<Rightarrow> jsobj \<Rightarrow> openlogin \<Rightarrow> world \<Rightarrow> (error + string) \<times> world" where
  "getLoginId e loginParams ol w =
     (if sessionManager ol = None
      then (Inl (Error ''session manager not initialized. please call init first''), w)
      else (let dataObject = \<lparr>payload_options = options ol, payload_params = loginParams\<rparr>;
                loginId = generateRandomSessionKey e;
                loginSessionMgr = \<lparr>sessionServerBaseUrl = storageServerUrl (options ol),
                                   managerNamespace = sessionNamespace (options ol),
                                   managerSessionTime = Some 600,
                                   sessionKey = Some loginId\<rparr>;
                w1 = emit (CreateSession loginSessionMgr dataObject) w
            in case createSession_result e loginSessionMgr of
                 Some err \<Rightarrow> (Inl err, w1)
               | None \<Rightarrow> (Inr loginId, w1)))"

definition login_popup :: "env \<Rightarrow> string \<Rightarrow> openlogin \<Rightarrow> world \<Rightarrow> login_result outcome \<times> openlogin \<times> world" where
  "login_popup e loginId ol w =
     (let loginUrl = constructURL (template (sdkUrl (options ol)) @ ''/popup-window'') [(''loginId'', loginId)];
          w1 = emit (PopupOpen loginUrl) (emit (ListenOnChannel loginId) w)
      in case popup_result e loginUrl loginId of
           PopupClosed \<Rightarrow> (Rejected (Error ''user closed popup''), ol, w1)
         | ChannelError err \<Rightarrow> (Rejected err, ol, w1)
         | NoEvent \<Rightarrow> (Pending, ol, w1)
         | ChannelMessage sessionId \<Rightarrow>
             (case sessionManager ol of
                None \<Rightarrow> (Rejected (TypeError ''cannot set properties of undefined''), ol, w1)
              | Some sm \<Rightarrow>
                  (let sm1 = sm\<lparr>sessionKey := Some sessionId\<rparr>;
                       ol1 = ol\<lparr>sessionManager := Some sm1\<rparr>;
                       w2 = emit (AuthorizeSession sm1) w1
                   in case authorizeSession_result e sm1 of
                        Inl err \<Rightarrow> (Rejected err, ol1, w2)
                      | Inr sessionData \<Rightarrow>
                          (let ol2 = updateState sessionData ol1
                           in case privKey ol2 of
                                Inl err \<Rightarrow> (Rejected err, ol2, w2)
                              | Inr k \<Rightarrow> (Resolved (LoginPrivKey k), ol2, w2)))))"

text \<open>The merged parameters
  \<open>{ loginProvider: params.loginProvider, ...defaultParams, ...params }\<close>.\<close>

definition merge_loginParams :: "openlogin \<Rightarrow> jsobj \<Rightarrow> jsobj" where
  "merge_loginParams ol p =
     (let defaultParams = property ''redirectUrl'' (map_option JStr (redirectUrl (options ol)))
      in spread (spread (property ''loginProvider'' (p ''loginProvider'')) defaultParams) p)"

definition login :: "env \<Rightarrow> jsobj option \<Rightarrow> openlogin \<Rightarrow> world \<Rightarrow> login_result outcome \<times> openlogin \<times> world" where
  "login e params ol w =
     (case params of
        None \<Rightarrow> (Rejected (Error ''Please pass loginProvider in params''), ol, w)
      | Some p \<Rightarrow>
          if \<not> truthy (p ''loginProvider'')
          then (Rejected (Error ''Please pass loginProvider in params''), ol, w)
          else (case getLoginId e (merge_loginParams ol p) ol w of
                  (Inl err, w1) \<Rightarrow> (Rejected err, ol, w1)
                | (Inr loginId, w1) \<Rightarrow>
                    if uxMode (options ol) = Some REDIRECT
                    then (let loginUrl = constructURL (template (sdkUrl (options ol)) @ ''/start'')
                                           [(''loginId'', loginId)]
                          in (Resolved LoginUndefined, ol, emit (Navigate loginUrl) w1))
                    else login_popup e loginId ol w1))"

subsection \<open>Logout and user info\<close>

definition cleared_userInfo :: jsobj where
  "cleared_userInfo =
     [''name'' \<mapsto> JStr '''', ''profileImage'' \<mapsto> JStr '''', ''dappShare'' \<mapsto> JStr '''',
      ''idToken'' \<mapsto> JStr '''', ''oAuthIdToken'' \<mapsto> JStr '''', ''oAuthAccessToken'' \<mapsto> JStr '''',
      ''appState'' \<mapsto> JStr '''', ''email'' \<mapsto> JStr '''', ''verifier'' \<mapsto> JStr '''',
      ''verifierId'' \<mapsto> JStr '''', ''aggregateVerifier'' \<mapsto> JStr '''', ''typeOfLogin'' \<mapsto> JStr '''']"

definition cleared_state :: jsobj where
  "cleared_state =
     [''privKey'' \<mapsto> JStr '''', ''coreKitKey'' \<mapsto> JStr '''', ''coreKitEd25519PrivKey'' \<mapsto> JStr '''',
      ''ed25519PrivKey'' \<mapsto> JStr '''', ''walletKey'' \<mapsto> JStr '''', ''oAuthPrivateKey'' \<mapsto> JStr '''',
      ''tKey'' \<mapsto> JStr '''', ''userInfo'' \<mapsto> JObj cleared_userInfo]"

definition logout :: "env \<Rightarrow> openlogin \<Rightarrow> world \<Rightarrow> unit outcome \<times> openlogin \<times> world" where
  "logout e ol w =
     (case sessionManager ol of
        None \<Rightarrow> (Rejected (TypeError ''cannot read properties of undefined''), ol, w)
      | Some sm \<Rightarrow>
          if \<not> truthy_str (sessionKey sm) then (Rejected (Error ''User not logged in''), ol, w)
          else (let w1 = emit (InvalidateSession sm) w
                in case invalidateSession_result e sm of
                     Some err \<Rightarrow> (Rejected err, ol, w1)
                   | None \<Rightarrow>
                       (let ol1 = updateState cleared_state ol
                        in case currentStorage ol1 of
                             None \<Rightarrow> (Rejected (TypeError ''cannot read properties of undefined''), ol1, w1)
                           | Some sid \<Rightarrow> (Resolved (), ol1, storage_set sid ''sessionId'' '''' w1))))"

definition getUserInfo :: "openlogin \<Rightarrow> world \<Rightarrow> jsval option outcome \<times> openlogin \<times> world" where
  "getUserInfo ol w =
     (case privKey ol of
        Inl err \<Rightarrow> (Rejected err, ol, w)
      | Inr k \<Rightarrow> if k \<noteq> [] then (Resolved (state ol ''userInfo''), ol, w)
                 else (Rejected (Error ''user should be logged in to fetch userInfo''), ol, w))"

section \<open>The documented network table\<close>

text \<open>The well-known service URL of each named network, in the specification's words;
  the constructor is compared with it.\<close>

definition documented_sdkUrl :: "(string \<times> string) list" where
  "documented_sdkUrl =
     [(''mainnet'', ''https://app.openlogin.com''),
      (''cyan'', ''https://cyan.openlogin.com''),
      (''testnet'', ''https://beta.openlogin.com''),
      (''sk_testnet'', ''https://beta-sk.openlogin.com''),
      (''celeste'', ''https://celeste.openlogin.com''),
      (''aqua'', ''https://aqua.openlogin.com''),
      (''development'', ''http://localhost:3000'')]"

section \<open>Example inputs\<close>

text \<open>A page, collaborators with fixed answers (the store's answer to \<open>authorizeSession\<close>
  and to \<open>invalidateSession\<close>, the popup's event), and a world with a given stored and a
  given hash-delivered session key.\<close>

fun property_str :: "string \<Rightarrow> string option \<Rightarrow> (string \<Rightarrow> string option)" where
  "property_str k None = Map.empty"
| "property_str k (Some v) = [k \<mapsto> v]"

definition example_location :: location where
  "example_location = \<lparr>protocol = ''https:'', host = ''dapp.example'', pathname = ''/app'',
     origin = ''https://dapp.example''\<rparr>"

definition example_env :: "(error + jsobj) \<Rightarrow> error option \<Rightarrow> env" where
  "example_env auth inval =
     \<lparr>window_location = example_location,
      generateRandomSessionKey = ''login-request-1'',
      createSession_result = (\<lambda>sm. None),
      authorizeSession_result = (\<lambda>sm. auth),
      invalidateSession_result = (\<lambda>sm. inval),
      popup_result = (\<lambda>u c. NoEvent)\<rparr>"

definition example_world :: "string option \<Rightarrow> string option \<Rightarrow> world" where
  "example_world stored delivered =
     \<lparr>storage = (\<lambda>sid. property_str ''sessionId'' stored),
      pageHash = property_str ''sessionId'' delivered,
      effects = []\<rparr>"

text \<open>A caller's options object with no property set, and an orchestrator holding a given
  session-data object before initialization.\<close>

definition no_options :: options where
  "no_options = \<lparr>sdkUrl = None, network = None, redirectUrl = None, uxMode = None,
     replaceUrlOnRedirect = None, originData = None, whiteLabel = None, loginConfig = None,
     storageServerUrl = None, storageKey = None, webauthnTransports = None, sessionTime = None,
     sessionNamespace = None\<rparr>"

definition with_state :: "jsobj \<Rightarrow> openlogin" where
  "with_state st = \<lparr>state = st, sessionManager = None, currentStorage = None, options = no_options\<rparr>"

text \<open>The orchestrator constructed on the example page for the network \<open>mainnet\<close>, the
  session manager and the orchestrator it has after \<open>init\<close>, and the session data the
  example store holds under the stored key.\<close>

definition mainnet_options :: options where
  "mainnet_options =
     \<lparr>sdkUrl = Some ''https://app.openlogin.com'', network = Some ''mainnet'',
      redirectUrl = Some ''https://dapp.example/app'', uxMode = Some ''redirect'',
      replaceUrlOnRedirect = Some True, originData = Some [''https://dapp.example'' \<mapsto> ''''],
      whiteLabel = Some Map.empty, loginConfig = Some Map.empty,
      storageServerUrl = Some ''https://broadcast-server.tor.us'', storageKey = Some ''local'',
      webauthnTransports = Some [''internal''], sessionTime = Some 86400, sessionNamespace = None\<rparr>"

definition constructed :: openlogin where
  "constructed = \<lparr>state = Map.empty, sessionManager = None, currentStorage = None,
     options = mainnet_options\<rparr>"

definition example_session_data :: jsobj where
  "example_session_data =
     [''privKey'' \<mapsto> JStr ''abc'', ''sessionId'' \<mapsto> JStr ''stored-key'',
      ''userInfo'' \<mapsto> JObj [''name'' \<mapsto> JStr ''Ada'', ''isMfaEnabled'' \<mapsto> JStr ''yes'']]"

definition example_manager :: "string option \<Rightarrow> session_manager" where
  "example_manager k = \<lparr>sessionServerBaseUrl = Some ''https://broadcast-server.tor.us'',
     managerNamespace = None, managerSessionTime = Some 86400, sessionKey = k\<rparr>"

definition initialised :: "jsobj \<Rightarrow> string option \<Rightarrow> openlogin" where
  "initialised st k = \<lparr>state = st, sessionManager = Some (example_manager k),
     currentStorage = Some (''openlogin_store'', Some ''local''), options = mainnet_options\<rparr>"

definition logged_in :: openlogin where
  "logged_in = initialised example_session_data (Some ''stored-key'')"

text \<open>Login parameters naming the provider \<open>google\<close>, and the world after the
  login request for them has been created.\<close>

definition google_params :: jsobj where
  "google_params = [''loginProvider'' \<mapsto> JStr ''google'']"

definition login_request_world :: world where
  "login_request_world =
     emit (CreateSession
        \<lparr>sessionServerBaseUrl = Some ''https://broadcast-server.tor.us'', managerNamespace = None,
         managerSessionTime = Some 600, sessionKey = Some ''login-request-1''\<rparr>
        \<lparr>payload_options = mainnet_options, payload_params = merge_loginParams logged_in google_params\<rparr>)
       (example_world (Some ''stored-key'') None)"

section \<open>Construction\<close>

text \<open>
  Claim C4. A configuration with no explicit service URL (\<open>sdkUrl\<close> unset or empty) and
  no recognized named network makes the constructor throw the configuration error; the
  world is returned as it was, so nothing outside the orchestrator has been touched.
\<close>

theorem constructor_unspecified:
  "\<not> truthy_str (sdkUrl opts) \<Longrightarrow>
   network opts \<notin> Some ` {MAINNET, CYAN, TESTNET, SK_TESTNET, CELESTE, AQUA, DEVELOPMENT} \<Longrightarrow>
   OpenLogin_constructor e opts w = (Inl (Error ''unspecified network and sdkUrl''), w)"
  by (simp add: OpenLogin_constructor_def derive_sdkUrl_def)

text \<open>Construction from the empty options object, and from an empty URL with an unknown
  network name.\<close>

theorem constructor_unspecified_witness:
  "OpenLogin_constructor (example_env (Inr Map.empty) None) no_options (example_world None None)
     = (Inl (Error ''unspecified network and sdkUrl''), example_world None None) \<and>
   OpenLogin_constructor (example_env (Inr Map.empty) None)
       (no_options\<lparr>sdkUrl := Some '''', network := Some ''ropsten''\<rparr>) (example_world None None)
     = (Inl (Error ''unspecified network and sdkUrl''), example_world None None)"
  using constructor_unspecified [of no_options "example_env (Inr Map.empty) None" "example_world None None"]
    constructor_unspecified [of "no_options\<lparr>sdkUrl := Some '''', network := Some ''ropsten''\<rparr>"
       "example_env (Inr Map.empty) None" "example_world None None"]
  by (simp add: no_options_def)

lemma sdkUrl_fill_defaults: "sdkUrl (fill_defaults loc opts) = sdkUrl opts"
  by (simp add: fill_defaults_def)

lemma derive_sdkUrl_documented:
  "\<not> truthy_str (sdkUrl opts) \<Longrightarrow> (n, u) \<in> set documented_sdkUrl \<Longrightarrow> network opts = Some n \<Longrightarrow>
   sdkUrl (derive_sdkUrl opts) = Some u"
  unfolding documented_sdkUrl_def derive_sdkUrl_def by auto

text \<open>
  Claim C5. For every named network of the documented table, construction without an
  explicit service URL succeeds and the configuration's service URL is the URL the table
  gives for that network.
\<close>

theorem constructor_derives_sdkUrl:
  assumes "\<not> truthy_str (sdkUrl opts)" and "(n, u) \<in> set documented_sdkUrl" and "network opts = Some n"
  shows "\<exists>ol. OpenLogin_constructor e opts w = (Inr ol, w) \<and> sdkUrl (options ol) = Some u"
proof -
  have url: "sdkUrl (derive_sdkUrl opts) = Some u"
    using assms by (rule derive_sdkUrl_documented)
  have "u \<noteq> []"
    using assms(2) by (auto simp: documented_sdkUrl_def)
  with url have "truthy_str (sdkUrl (derive_sdkUrl opts))" by simp
  then show ?thesis
    using url by (simp add: OpenLogin_constructor_def Let_def sdkUrl_fill_defaults)
qed

text \<open>Construction for the networks \<open>cyan\<close> and \<open>development\<close>.\<close>

theorem constructor_derives_sdkUrl_witness:
  "(\<exists>ol. OpenLogin_constructor (example_env (Inr Map.empty) None) (no_options\<lparr>network := Some ''cyan''\<rparr>)
         (example_world None None) = (Inr ol, example_world None None) \<and>
        sdkUrl (options ol) = Some ''https://cyan.openlogin.com'') \<and>
   (\<exists>ol. OpenLogin_constructor (example_env (Inr Map.empty) None) (no_options\<lparr>network := Some ''development''\<rparr>)
         (example_world None None) = (Inr ol, example_world None None) \<and>
        sdkUrl (options ol) = Some ''http://localhost:3000'')"
  using constructor_derives_sdkUrl [of "no_options\<lparr>network := Some ''cyan''\<rparr>" "''cyan''"
      "''https://cyan.openlogin.com''" "example_env (Inr Map.empty) None" "example_world None None"]
    constructor_derives_sdkUrl [of "no_options\<lparr>network := Some ''development''\<rparr>" "''development''"
      "''http://localhost:3000''" "example_env (Inr Map.empty) None" "example_world None None"]
  by (simp add: no_options_def documented_sdkUrl_def)

section \<open>Login without a provider\<close>

text \<open>
  Claim C6. A call of \<open>login\<close> whose parameters are absent, or lack a \<open>loginProvider\<close> (or
  carry an empty one), fails with the invalid-argument error; the orchestrator and the
  world are returned as they were, so no call to the session store or the network has
  been made.
\<close>

theorem login_requires_provider:
  "params = None \<or> (\<exists>p. params = Some p \<and> \<not> truthy (p ''loginProvider'')) \<Longrightarrow>
   login e params ol w = (Rejected (Error ''Please pass loginProvider in params''), ol, w)"
  by (auto simp: login_def)

text \<open>Login with no parameters, and with parameters that only carry a redirect URL.\<close>

theorem login_requires_provider_witness:
  "login (example_env (Inr Map.empty) None) None (with_state Map.empty) (example_world None None)
     = (Rejected (Error ''Please pass loginProvider in params''), with_state Map.empty, example_world None None) \<and>
   login (example_env (Inr Map.empty) None) (Some [''redirectUrl'' \<mapsto> JStr ''https://dapp.example/done''])
       (with_state Map.empty) (example_world None None)
     = (Rejected (Error ''Please pass loginProvider in params''), with_state Map.empty, example_world None None)"
  using login_requires_provider [of None "example_env (Inr Map.empty) None" "with_state Map.empty" "example_world None None"]
    login_requires_provider [of "Some [''redirectUrl'' \<mapsto> JStr ''https://dapp.example/done'']"
      "example_env (Inr Map.empty) None" "with_state Map.empty" "example_world None None"]
  by simp

section \<open>Key accessors\<close>

lemma concat_replicate_single: "concat (replicate n [c]) = replicate n c"
  by (induction n) simp_all

lemma padStart_zero: "padStart 64 ''0'' s = replicate (64 - length s) CHR ''0'' @ s"
  by (simp add: padStart_def concat_replicate_single)

text \<open>
  Claim C2, as amended. The accessors \<open>privKey\<close> and \<open>coreKitKey\<close> return the raw value
  left-padded with the character 0 to a width of 64 whenever the stored value is a
  non-empty string: the result has exactly 64 characters when the raw value has at most
  64, and is the raw value itself when that is longer. When the stored value is unset or
  the empty string they return the empty string.
\<close>

theorem key_accessors_padded:
  "(state ol ''privKey'' = Some (JStr s) \<and> s \<noteq> [] \<longrightarrow>
      privKey ol = Inr (replicate (64 - length s) CHR ''0'' @ s) \<and>
      length (replicate (64 - length s) CHR ''0'' @ s) = max 64 (length s)) \<and>
   (state ol ''privKey'' = None \<or> state ol ''privKey'' = Some (JStr []) \<longrightarrow> privKey ol = Inr []) \<and>
   (state ol ''coreKitKey'' = Some (JStr t) \<and> t \<noteq> [] \<longrightarrow>
      coreKitKey ol = Inr (replicate (64 - length t) CHR ''0'' @ t) \<and>
      length (replicate (64 - length t) CHR ''0'' @ t) = max 64 (length t)) \<and>
   (state ol ''coreKitKey'' = None \<or> state ol ''coreKitKey'' = Some (JStr []) \<longrightarrow> coreKitKey ol = Inr [])"
  by (auto simp: privKey_def coreKitKey_def padStart_zero)

text \<open>The accessors at the raw private key \<open>abc\<close>: 61 zeros and \<open>abc\<close>, 64 characters; the
  unset core key reads as the empty string.\<close>

theorem key_accessors_padded_witness:
  "privKey (with_state [''privKey'' \<mapsto> JStr ''abc'']) = Inr (replicate 61 CHR ''0'' @ ''abc'') \<and>
   length (replicate 61 CHR ''0'' @ ''abc'') = 64 \<and>
   coreKitKey (with_state [''privKey'' \<mapsto> JStr ''abc'']) = Inr []"
  using key_accessors_padded [of "with_state [''privKey'' \<mapsto> JStr ''abc'']" "''abc''" "''''"]
  by (simp add: with_state_def)

text \<open>Claim C2 as stated fails for a raw value of 65 characters: \<open>padStart\<close> never cuts,
  so the accessor returns all 65.\<close>

theorem key_accessor_long_value:
  "privKey (with_state [''privKey'' \<mapsto> JStr (replicate 65 CHR ''f'')]) = Inr (replicate 65 CHR ''f'') \<and>
   length (replicate 65 CHR ''f'') \<noteq> 64"
  by (simp add: privKey_def with_state_def padStart_def)

section \<open>Example runs\<close>

text \<open>The example orchestrator is what the constructor builds for the network
  \<open>mainnet\<close>, and \<open>init\<close> on it with a stored session key gives the initialised
  orchestrator: with the store's session data when authorization succeeds, with the empty
  state (and the failure logged) when it fails.\<close>

lemma constructed_by_constructor:
  "OpenLogin_constructor (example_env a i) (no_options\<lparr>network := Some ''mainnet''\<rparr>) w = (Inr constructed, w)"
  by (simp add: OpenLogin_constructor_def derive_sdkUrl_def fill_defaults_def no_options_def
      constructed_def mainnet_options_def example_env_def example_location_def)

lemma init_constructed_stored:
  "init (example_env a None) constructed (example_world (Some ''stored-key'') None)
    = (Resolved (),
       initialised (case a of Inl err \<Rightarrow> Map.empty | Inr data \<Rightarrow> data) (Some ''stored-key''),
       \<lparr>storage = (\<lambda>sid. [''sessionId'' \<mapsto> ''stored-key'']), pageHash = Map.empty,
        effects = (case a of
           Inl err \<Rightarrow> [ReplaceUrl, AuthorizeSession (example_manager (Some ''stored-key'')),
                        LogError ''authorization failed'' err]
         | Inr data \<Rightarrow> [ReplaceUrl, AuthorizeSession (example_manager (Some ''stored-key''))])\<rparr>)"
  by (cases a)
     (simp_all add: init_def init_storage_id_def Let_def storage_get_def getHashQueryParams_def
      private_authorizeSession_def updateState_def spread_def emit_def
      example_world_def example_env_def initialised_def example_manager_def constructed_def mainnet_options_def)

lemma logged_in_by_init:
  "fst (snd (init (example_env (Inr example_session_data) None) constructed
      (example_world (Some ''stored-key'') None))) = logged_in"
  by (simp add: init_constructed_stored logged_in_def)

lemma logged_in_sel:
  "sessionManager logged_in = Some (example_manager (Some ''stored-key''))"
  "currentStorage logged_in = Some (''openlogin_store'', Some ''local'')"
  "state logged_in = example_session_data"
  by (simp_all add: logged_in_def initialised_def)

lemma example_env_sel:
  "authorizeSession_result (example_env a i) sm = a"
  "invalidateSession_result (example_env a i) sm = i"
  "createSession_result (example_env a i) sm = None"
  "generateRandomSessionKey (example_env a i) = ''login-request-1''"
  by (simp_all add: example_env_def)

lemma sessionKey_example_manager: "sessionKey (example_manager k) = k"
  by (simp add: example_manager_def)

section \<open>Initialization\<close>

lemma spread_empty [simp]: "spread m Map.empty = m"
  by (simp add: spread_def)

lemma pageHash_emit [simp]: "pageHash (emit ev w) = pageHash w"
  by (simp add: emit_def)

lemma storage_emit [simp]: "storage (emit ev w) = storage w"
  by (simp add: emit_def)

text \<open>
  Claim C1. \<open>init\<close> always resolves. The session manager it leaves holds the hash-delivered
  session key when there is one, the stored key otherwise; when that key is non-empty and
  the store's \<open>authorizeSession\<close> fails, the in-memory state is what it was before (empty
  after construction), and when it succeeds the returned session data is merged into the
  state.
\<close>

theorem init_swallows_authorization_failure:
  "fst (init e ol w) = Resolved () \<and>
   (\<exists>sm. sessionManager (fst (snd (init e ol w))) = Some sm \<and>
         sessionKey sm = (if truthy_str (pageHash w ''sessionId'') then pageHash w ''sessionId''
                          else storage w (init_storage_id ol) ''sessionId'') \<and>
         (truthy_str (sessionKey sm) \<longrightarrow>
            (case authorizeSession_result e sm of
               Inl err \<Rightarrow> state (fst (snd (init e ol w))) = state ol
             | Inr data \<Rightarrow> state (fst (snd (init e ol w))) = spread (state ol) data)))"
  by (auto simp: init_def Let_def getHashQueryParams_def storage_get_def private_authorizeSession_def
      updateState_def split: option.splits sum.splits prod.splits if_splits)

text \<open>\<open>init\<close> on the constructed orchestrator with a stored key: with a store that answers
  "Session Expired" the state stays empty, with a store that answers the example session
  data the state is that data.\<close>

theorem init_swallows_authorization_failure_witness:
  "fst (init (example_env (Inl (Error ''Session Expired'')) None) constructed
      (example_world (Some ''stored-key'') None)) = Resolved () \<and>
   state (fst (snd (init (example_env (Inl (Error ''Session Expired'')) None) constructed
      (example_world (Some ''stored-key'') None)))) = Map.empty \<and>
   state (fst (snd (init (example_env (Inr example_session_data) None) constructed
      (example_world (Some ''stored-key'') None)))) = example_session_data"
  using init_swallows_authorization_failure [of "example_env (Inl (Error ''Session Expired'')) None"
      constructed "example_world (Some ''stored-key'') None"]
    init_swallows_authorization_failure [of "example_env (Inr example_session_data) None"
      constructed "example_world (Some ''stored-key'') None"]
  by (simp add: init_constructed_stored initialised_def)

text \<open>
  Claim C8. When the page's hash parameters carry a (non-empty) \<open>sessionId\<close>, \<open>init\<close>
  writes that value to storage under \<open>sessionId\<close>, whatever was stored there before, and
  the session manager holds it as the session key; the calls \<open>init\<close> adds contain an
  \<open>authorizeSession\<close> call, and every such call is made by the manager holding the
  delivered key.
\<close>

theorem init_adopts_delivered_key:
  assumes "pageHash w ''sessionId'' = Some v" and "v \<noteq> []"
  shows "storage (snd (snd (init e ol w))) (init_storage_id ol) ''sessionId'' = Some v \<and>
         currentStorage (fst (snd (init e ol w))) = Some (init_storage_id ol) \<and>
         (\<exists>sm evs. sessionManager (fst (snd (init e ol w))) = Some sm \<and> sessionKey sm = Some v \<and>
             effects (snd (snd (init e ol w))) = effects w @ evs \<and>
             AuthorizeSession sm \<in> set evs \<and>
             (\<forall>sm'. AuthorizeSession sm' \<in> set evs \<longrightarrow> sm' = sm))"
  using assms
  by (auto simp: init_def Let_def getHashQueryParams_def storage_get_def private_authorizeSession_def
      updateState_def emit_def storage_set_def split: sum.splits)

text \<open>\<open>init\<close> with the stored key \<open>stored-key\<close> and the hash-delivered key
  \<open>delivered-key\<close>: storage and session manager end with the delivered key, and the one
  authorization call is made with it.\<close>

theorem init_adopts_delivered_key_witness:
  "storage (example_world (Some ''stored-key'') (Some ''delivered-key''))
      (''openlogin_store'', Some ''local'') ''sessionId'' = Some ''stored-key'' \<and>
   storage (snd (snd (init (example_env (Inr example_session_data) None) constructed
      (example_world (Some ''stored-key'') (Some ''delivered-key'')))))
      (''openlogin_store'', Some ''local'') ''sessionId'' = Some ''delivered-key'' \<and>
   sessionManager (fst (snd (init (example_env (Inr example_session_data) None) constructed
      (example_world (Some ''stored-key'') (Some ''delivered-key'')))))
     = Some (example_manager (Some ''delivered-key'')) \<and>
   effects (snd (snd (init (example_env (Inr example_session_data) None) constructed
      (example_world (Some ''stored-key'') (Some ''delivered-key'')))))
     = [ReplaceUrl, AuthorizeSession (example_manager (Some ''delivered-key''))]"
proof -
  have init_id: "init_storage_id constructed = (''openlogin_store'', Some ''local'')"
    by (simp add: init_storage_id_def constructed_def mainnet_options_def)
  have delivered: "pageHash (example_world (Some ''stored-key'') (Some ''delivered-key'')) ''sessionId''
      = Some ''delivered-key''"
    by (simp add: example_world_def)
  have mgr: "sessionManager (fst (snd (init (example_env (Inr example_session_data) None) constructed
      (example_world (Some ''stored-key'') (Some ''delivered-key'')))))
     = Some (example_manager (Some ''delivered-key''))"
    by (simp add: init_def init_storage_id_def Let_def storage_get_def getHashQueryParams_def
      private_authorizeSession_def updateState_def emit_def storage_set_def
      example_world_def example_env_def example_manager_def constructed_def mainnet_options_def)
  have evs: "effects (snd (snd (init (example_env (Inr example_session_data) None) constructed
      (example_world (Some ''stored-key'') (Some ''delivered-key'')))))
     = [ReplaceUrl, AuthorizeSession (example_manager (Some ''delivered-key''))]"
    by (simp add: init_def init_storage_id_def Let_def storage_get_def getHashQueryParams_def
      private_authorizeSession_def updateState_def emit_def storage_set_def
      example_world_def example_env_def example_manager_def constructed_def mainnet_options_def)
  have stored: "storage (example_world (Some ''stored-key'') (Some ''delivered-key''))
      (''openlogin_store'', Some ''local'') ''sessionId'' = Some ''stored-key''"
    by (simp add: example_world_def)
  from init_adopts_delivered_key [OF delivered, of "example_env (Inr example_session_data) None" constructed]
    mgr evs stored
  show ?thesis by (simp add: init_id)
qed

section \<open>Logout and user info\<close>

lemma cleared_state_simps:
  "cleared_state ''privKey'' = Some (JStr [])"
  "cleared_state ''coreKitKey'' = Some (JStr [])"
  "cleared_state ''coreKitEd25519PrivKey'' = Some (JStr [])"
  "cleared_state ''ed25519PrivKey'' = Some (JStr [])"
  "cleared_state ''walletKey'' = Some (JStr [])"
  "cleared_state ''oAuthPrivateKey'' = Some (JStr [])"
  "cleared_state ''tKey'' = Some (JStr [])"
  "cleared_state ''userInfo'' = Some (JObj cleared_userInfo)"
  by (simp_all add: cleared_state_def)

lemma dom_cleared_userInfo:
  "dom cleared_userInfo = {''name'', ''profileImage'', ''dappShare'', ''idToken'', ''oAuthIdToken'',
     ''oAuthAccessToken'', ''appState'', ''email'', ''verifier'', ''verifierId'', ''aggregateVerifier'',
     ''typeOfLogin''}"
  unfolding cleared_userInfo_def by (simp add: insert_commute)

lemma cleared_userInfo_values: "cleared_userInfo k = Some v \<Longrightarrow> v = JStr []"
  unfolding cleared_userInfo_def by (simp split: if_splits)

lemma state_updateState:
  "state (updateState d ol) k = (case d k of None \<Rightarrow> state ol k | Some v \<Rightarrow> Some v)"
  by (simp add: updateState_def spread_def map_add_def)

lemma updateState_others [simp]:
  "sessionManager (updateState d ol) = sessionManager ol"
  "currentStorage (updateState d ol) = currentStorage ol"
  "options (updateState d ol) = options ol"
  by (simp_all add: updateState_def)

lemma storage_storage_set:
  "storage (storage_set sid name v w) sid' name' =
     (if sid' = sid \<and> name' = name then Some v else storage w sid' name')"
  by (simp add: storage_set_def)

text \<open>A logout that resolves has passed every check: the session was invalidated, the
  state was merged with the cleared fields and the stored key was overwritten.\<close>

lemma logout_Resolved:
  assumes "fst (logout e ol w) = Resolved ()"
  obtains sm sid where "sessionManager ol = Some sm" "currentStorage ol = Some sid"
    "logout e ol w = (Resolved (), updateState cleared_state ol,
        storage_set sid ''sessionId'' [] (emit (InvalidateSession sm) w))"
  using assms unfolding logout_def
  by (auto simp: Let_def split: option.splits if_splits)

lemma logout_logged_in:
  "logout (example_env a None) logged_in w =
     (Resolved (), updateState cleared_state logged_in,
      storage_set (''openlogin_store'', Some ''local'') ''sessionId'' []
        (emit (InvalidateSession (example_manager (Some ''stored-key''))) w))"
  by (simp add: logout_def logged_in_sel example_env_sel sessionKey_example_manager Let_def)

text \<open>
  Claim C3, as amended. After a successful \<open>logout\<close>, whatever the state was before, each
  of the seven key fields the method names (\<open>privKey\<close>, \<open>coreKitKey\<close>,
  \<open>coreKitEd25519PrivKey\<close>, \<open>ed25519PrivKey\<close>, \<open>walletKey\<close>, \<open>oAuthPrivateKey\<close>, \<open>tKey\<close>) is
  present and is the empty string, \<open>userInfo\<close> is present and is an object with exactly the
  twelve user-info fields the method names, each the empty string, and the value stored
  under \<open>sessionId\<close> is the empty string.
\<close>

theorem logout_clears_listed_fields:
  assumes "fst (logout e ol w) = Resolved ()"
  shows "state (fst (snd (logout e ol w))) ''privKey'' = Some (JStr '''') \<and>
         state (fst (snd (logout e ol w))) ''coreKitKey'' = Some (JStr '''') \<and>
         state (fst (snd (logout e ol w))) ''coreKitEd25519PrivKey'' = Some (JStr '''') \<and>
         state (fst (snd (logout e ol w))) ''ed25519PrivKey'' = Some (JStr '''') \<and>
         state (fst (snd (logout e ol w))) ''walletKey'' = Some (JStr '''') \<and>
         state (fst (snd (logout e ol w))) ''oAuthPrivateKey'' = Some (JStr '''') \<and>
         state (fst (snd (logout e ol w))) ''tKey'' = Some (JStr '''') \<and>
         (\<exists>u. state (fst (snd (logout e ol w))) ''userInfo'' = Some (JObj u) \<and>
              dom u = {''name'', ''profileImage'', ''dappShare'', ''idToken'', ''oAuthIdToken'',
                       ''oAuthAccessToken'', ''appState'', ''email'', ''verifier'', ''verifierId'',
                       ''aggregateVerifier'', ''typeOfLogin''} \<and>
              (\<forall>k v. u k = Some v \<longrightarrow> v = JStr '''')) \<and>
         (\<exists>sid. currentStorage (fst (snd (logout e ol w))) = Some sid \<and>
                storage (snd (snd (logout e ol w))) sid ''sessionId'' = Some '''')"
proof -
  from assms obtain sm sid where cs: "currentStorage ol = Some sid"
    and run: "logout e ol w = (Resolved (), updateState cleared_state ol,
        storage_set sid ''sessionId'' [] (emit (InvalidateSession sm) w))"
    by (rule logout_Resolved)
  have info: "\<exists>u. state (updateState cleared_state ol) ''userInfo'' = Some (JObj u) \<and>
              dom u = {''name'', ''profileImage'', ''dappShare'', ''idToken'', ''oAuthIdToken'',
                       ''oAuthAccessToken'', ''appState'', ''email'', ''verifier'', ''verifierId'',
                       ''aggregateVerifier'', ''typeOfLogin''} \<and>
              (\<forall>k v. u k = Some v \<longrightarrow> v = JStr '''')"
    using dom_cleared_userInfo cleared_userInfo_values
    by (intro exI [of _ cleared_userInfo]) (simp add: state_updateState cleared_state_simps)
  have store: "currentStorage (updateState cleared_state ol) = Some sid \<and>
      storage (storage_set sid name [] (emit (InvalidateSession sm) w)) sid name = Some []" for name
    using cs by (simp add: storage_storage_set)
  show ?thesis
    unfolding run fst_conv snd_conv
    using info store by (simp add: state_updateState cleared_state_simps)
qed

text \<open>Logout of the logged-in example orchestrator: the private key \<open>abc\<close> and the stored
  session key are both replaced by the empty string.\<close>

theorem logout_clears_listed_fields_witness:
  "fst (logout (example_env (Inr Map.empty) None) logged_in (example_world (Some ''stored-key'') None))
     = Resolved () \<and>
   state logged_in ''privKey'' = Some (JStr ''abc'') \<and>
   state (fst (snd (logout (example_env (Inr Map.empty) None) logged_in
      (example_world (Some ''stored-key'') None)))) ''privKey'' = Some (JStr '''') \<and>
   storage (snd (snd (logout (example_env (Inr Map.empty) None) logged_in
      (example_world (Some ''stored-key'') None)))) (''openlogin_store'', Some ''local'') ''sessionId'' = Some ''''"
proof -
  have run: "fst (logout (example_env (Inr Map.empty) None) logged_in
      (example_world (Some ''stored-key'') None)) = Resolved ()"
    by (simp add: logout_logged_in)
  have before: "state logged_in ''privKey'' = Some (JStr ''abc'')"
    by (simp add: logged_in_sel example_session_data_def)
  from logout_clears_listed_fields [OF run] run before show ?thesis
    by (simp add: logout_logged_in logged_in_sel)
qed

text \<open>Claim C3 as stated fails for a state with a field that \<open>logout\<close> does not name: the
  session data of the example carries a \<open>sessionId\<close> field, and the merge keeps it.\<close>

theorem logout_keeps_unlisted_field:
  "fst (logout (example_env (Inr Map.empty) None) logged_in (example_world (Some ''stored-key'') None))
     = Resolved () \<and>
   state (fst (snd (logout (example_env (Inr Map.empty) None) logged_in
      (example_world (Some ''stored-key'') None)))) ''sessionId'' = Some (JStr ''stored-key'') \<and>
   JStr ''stored-key'' \<noteq> JStr ''''"
  by (simp add: logout_logged_in state_updateState cleared_state_def logged_in_sel example_session_data_def)

text \<open>
  Claim C7, as amended. On an initialised orchestrator (one that has a session manager)
  whose session key is unset or empty, \<open>logout\<close> fails with the not-logged-in error and
  returns the orchestrator and the world as they were. \<open>getUserInfo\<close> fails with the
  not-authenticated error when the private key is unset or empty, and returns the current
  \<open>userInfo\<close> when the private key is a non-empty string.
\<close>

theorem logout_getUserInfo_preconditions:
  "(sessionManager ol = Some sm \<and> \<not> truthy_str (sessionKey sm) \<longrightarrow>
      logout e ol w = (Rejected (Error ''User not logged in''), ol, w)) \<and>
   (state ol ''privKey'' = None \<or> state ol ''privKey'' = Some (JStr '''') \<longrightarrow>
      getUserInfo ol w = (Rejected (Error ''user should be logged in to fetch userInfo''), ol, w)) \<and>
   (state ol ''privKey'' = Some (JStr s) \<and> s \<noteq> [] \<longrightarrow>
      getUserInfo ol w = (Resolved (state ol ''userInfo''), ol, w))"
  by (auto simp: logout_def getUserInfo_def privKey_def padStart_zero)

text \<open>Logout and user info on an initialised orchestrator without session, and user info
  on the logged-in orchestrator.\<close>

theorem logout_getUserInfo_preconditions_witness:
  "logout (example_env (Inr Map.empty) None) (initialised Map.empty None) (example_world None None)
     = (Rejected (Error ''User not logged in''), initialised Map.empty None, example_world None None) \<and>
   getUserInfo (initialised Map.empty None) (example_world None None)
     = (Rejected (Error ''user should be logged in to fetch userInfo''), initialised Map.empty None,
        example_world None None) \<and>
   getUserInfo logged_in (example_world None None)
     = (Resolved (example_session_data ''userInfo''), logged_in, example_world None None)"
  using logout_getUserInfo_preconditions [of "initialised Map.empty None" "example_manager None"
      "example_env (Inr Map.empty) None" "example_world None None" "''abc''"]
    logout_getUserInfo_preconditions [of logged_in "example_manager None"
      "example_env (Inr Map.empty) None" "example_world None None" "''abc''"]
  by (simp add: initialised_def sessionKey_example_manager logged_in_sel example_session_data_def)

text \<open>Claim C7 as stated fails before \<open>init\<close>: the freshly constructed orchestrator has no
  session manager, and reading its session key is a type error, not the not-logged-in
  error.\<close>

theorem logout_before_init:
  "OpenLogin_constructor (example_env (Inr Map.empty) None) (no_options\<lparr>network := Some ''mainnet''\<rparr>)
      (example_world None None) = (Inr constructed, example_world None None) \<and>
   fst (logout (example_env (Inr Map.empty) None) constructed (example_world None None))
     = Rejected (TypeError ''cannot read properties of undefined'') \<and>
   fst (logout (example_env (Inr Map.empty) None) constructed (example_world None None))
     \<noteq> Rejected (Error ''User not logged in'')"
  by (simp add: constructed_by_constructor logout_def constructed_def)

text \<open>
  Claim C10. With a non-empty session key, when the store's \<open>invalidateSession\<close> fails,
  \<open>logout\<close> rejects with that failure, the orchestrator (its in-memory state included) is
  returned as it was, and storage is as it was.
\<close>

theorem logout_invalidation_failure:
  "sessionManager ol = Some sm \<Longrightarrow> truthy_str (sessionKey sm) \<Longrightarrow>
   invalidateSession_result e sm = Some err \<Longrightarrow>
   fst (logout e ol w) = Rejected err \<and> fst (snd (logout e ol w)) = ol \<and>
   storage (snd (snd (logout e ol w))) = storage w"
  by (simp add: logout_def Let_def)

text \<open>Logout of the logged-in example orchestrator against a store that fails with a
  network error: the stored session key is still \<open>stored-key\<close>.\<close>

theorem logout_invalidation_failure_witness:
  "fst (logout (example_env (Inr Map.empty) (Some (Error ''network error''))) logged_in
      (example_world (Some ''stored-key'') None)) = Rejected (Error ''network error'') \<and>
   fst (snd (logout (example_env (Inr Map.empty) (Some (Error ''network error''))) logged_in
      (example_world (Some ''stored-key'') None))) = logged_in \<and>
   storage (snd (snd (logout (example_env (Inr Map.empty) (Some (Error ''network error''))) logged_in
      (example_world (Some ''stored-key'') None)))) (''openlogin_store'', Some ''local'') ''sessionId''
     = Some ''stored-key''"
  using logout_invalidation_failure [of logged_in "example_manager (Some ''stored-key'')"
      "example_env (Inr Map.empty) (Some (Error ''network error''))" "Error ''network error''"
      "example_world (Some ''stored-key'') None"]
  by (simp add: logged_in_sel example_env_sel sessionKey_example_manager example_world_def)

section \<open>Login in redirect mode\<close>

lemma getLoginId_logged_in:
  "getLoginId (example_env a i) (merge_loginParams logged_in google_params) logged_in
      (example_world (Some ''stored-key'') None)
    = (Inr ''login-request-1'', login_request_world)"
  by (simp add: getLoginId_def Let_def example_env_sel login_request_world_def logged_in_def
      initialised_def mainnet_options_def)

text \<open>
  Claim C9, as amended. In redirect mode, with a provider given and the login request
  created under the key \<open>loginId\<close>, \<open>login\<close> navigates the page to a URL whose base is the
  service's \<open>/start\<close> entry point and whose hash fragment carries the parameter \<open>loginId\<close>
  with that key; the call then returns \<open>undefined\<close>: the promise resolves without a login
  result, and the orchestrator is unchanged.
\<close>

theorem login_redirect_navigates:
  assumes "uxMode (options ol) = Some REDIRECT" and "truthy (p ''loginProvider'')"
    and "getLoginId e (merge_loginParams ol p) ol w = (Inr loginId, w1)"
  shows "\<exists>target. login e (Some p) ol w = (Resolved LoginUndefined, ol, emit (Navigate target) w1) \<and>
           baseURL target = template (sdkUrl (options ol)) @ ''/start'' \<and>
           map_of (hash target) ''loginId'' = Some loginId"
proof (intro exI conjI)
  show "login e (Some p) ol w = (Resolved LoginUndefined, ol,
      emit (Navigate (URL (template (sdkUrl (options ol)) @ ''/start'') [(''loginId'', loginId)])) w1)"
    using assms by (simp add: login_def constructURL_def)
qed simp_all

text \<open>Login with the provider \<open>google\<close> on the logged-in example orchestrator: the page is
  sent to the service's start page with the login-request key in the hash.\<close>

theorem login_redirect_navigates_witness:
  "login (example_env (Inr Map.empty) None) (Some google_params) logged_in
      (example_world (Some ''stored-key'') None)
    = (Resolved LoginUndefined, logged_in,
       emit (Navigate (URL ''https://app.openlogin.com/start'' [(''loginId'', ''login-request-1'')]))
         login_request_world)"
proof -
  have mode: "uxMode (options logged_in) = Some REDIRECT"
    by (simp add: logged_in_def initialised_def mainnet_options_def)
  have provider: "truthy (google_params ''loginProvider'')"
    by (simp add: google_params_def)
  have url: "template (sdkUrl (options logged_in)) = ''https://app.openlogin.com''"
    by (simp add: logged_in_def initialised_def mainnet_options_def)
  from login_redirect_navigates [OF mode provider getLoginId_logged_in] obtain target where
    run: "login (example_env (Inr Map.empty) None) (Some google_params) logged_in
        (example_world (Some ''stored-key'') None)
      = (Resolved LoginUndefined, logged_in, emit (Navigate target) login_request_world)"
    and base: "baseURL target = template (sdkUrl (options logged_in)) @ ''/start''"
    and param: "map_of (hash target) ''loginId'' = Some ''login-request-1''"
    by blast
  have "login (example_env (Inr Map.empty) None) (Some google_params) logged_in
        (example_world (Some ''stored-key'') None)
      = (Resolved LoginUndefined, logged_in,
         emit (Navigate (URL ''https://app.openlogin.com/start'' [(''loginId'', ''login-request-1'')]))
           login_request_world)"
    by (simp add: login_def provider getLoginId_logged_in mode url constructURL_def)
  with run show ?thesis by simp
qed

text \<open>Claim C9 as stated fails: the statement after the navigation is \<open>return undefined\<close>,
  so the promise of a redirect-mode login settles (it resolves) instead of staying
  pending.\<close>

theorem login_redirect_resolves:
  "fst (login (example_env (Inr Map.empty) None) (Some google_params) logged_in
      (example_world (Some ''stored-key'') None)) = Resolved LoginUndefined \<and>
   fst (login (example_env (Inr Map.empty) None) (Some google_params) logged_in
      (example_world (Some ''stored-key'') None)) \<noteq> Pending"
proof -
  have mode: "uxMode (options logged_in) = Some REDIRECT"
    by (simp add: logged_in_def initialised_def mainnet_options_def)
  have provider: "truthy (google_params ''loginProvider'')"
    by (simp add: google_params_def)
  show ?thesis
    by (simp add: login_def provider getLoginId_logged_in mode)
qed

end
